theory Spec2Isabelle
  imports Complex_Main
begin

section \<open>Conventions of the embedding\<close>

text \<open>
  The TypeScript sources are embedded function by function.  A class becomes a record of
  its fields and every method a function that takes the object and returns the updated
  object next to the method's result.  JavaScript numbers that hold millisecond
  timestamps and array indices are \<^typ>\<open>int\<close>; numbers that hold a power or an angle are
  exact \<^typ>\<open>real\<close>s (rounding of IEEE doubles is not modelled).  \<open>null\<close> and \<open>undefined\<close>
  are both \<open>None\<close>: every test the sources make on them is a truthiness test.

  What the sources write to the console and emit on \<open>scene.events\<close> is collected, oldest
  first, in a \<open>Runtime\<close> record, so that "nothing was emitted" and "a warning was logged"
  are statements about values.
\<close>

datatype LogLine =
    ConsoleError string
  | ConsoleWarn string
  | ConsoleLog string
  | ConsoleLogShotFired real

section \<open>Handover.ts: Stage, Roadmap, Session\<close>

text \<open>
  \<open>Stage\<close> and \<open>Roadmap\<close> both have fields \<open>name\<close> and \<open>metadata\<close> in the source; the
  roadmap's are called \<open>roadmapName\<close> and \<open>roadmapMetadata\<close> here.  Metadata and session
  state hold values of type \<open>any\<close>; they are strings here, kept as association lists.
  \<open>sessionState\<close> lists the own properties of \<open>state\<close>; \<open>getState\<close> and \<open>setState\<close>, which
  also reach the properties that a plain object inherits, are not embedded.
\<close>

record Stage =
  name :: string
  allowedActions :: "string list"
  metadata :: "(string \<times> string) list"

record Roadmap =
  roadmapName :: string
  stages :: "Stage list"
  roadmapMetadata :: "(string \<times> string) list"

record Session =
  sessionId :: string
  roadmap :: Roadmap
  currentStageIndex :: int
  sessionState :: "(string \<times> string) list"

text \<open>\<open>Stage.isActionAllowed\<close>: \<open>this.allowedActions.includes(action)\<close>.\<close>

definition Stage_isActionAllowed :: "Stage \<Rightarrow> string \<Rightarrow> bool" where
  "Stage_isActionAllowed st action = (action \<in> set (allowedActions st))"

text \<open>\<open>Roadmap.addStage\<close>: \<open>this.stages.push(stage)\<close>.\<close>

definition addStage :: "Roadmap \<Rightarrow> Stage \<Rightarrow> Roadmap" where
  "addStage r st = r\<lparr>stages := stages r @ [st]\<rparr>"

text \<open>The constructor of \<open>Session\<close>: stage index 0 and an empty state.\<close>

definition Session_new :: "string \<Rightarrow> Roadmap \<Rightarrow> Session" where
  "Session_new i r =
     \<lparr>sessionId = i, roadmap = r, currentStageIndex = 0, sessionState = []\<rparr>"

text \<open>
  A JavaScript array read \<open>xs[i]\<close>: the element when \<open>i\<close> is an index of the array,
  \<open>undefined\<close> otherwise.
\<close>

definition js_index :: "'a list \<Rightarrow> int \<Rightarrow> 'a option" where
  "js_index xs i = (if 0 \<le> i \<and> i < int (length xs) then Some (xs ! nat i) else None)"

text \<open>\<open>Array.prototype.findIndex\<close>: the first index whose element satisfies \<open>p\<close>, or -1.\<close>

fun findIndex :: "('a \<Rightarrow> bool) \<Rightarrow> 'a list \<Rightarrow> int" where
  "findIndex p [] = -1"
| "findIndex p (x # xs) =
     (if p x then 0 else (if findIndex p xs = -1 then -1 else findIndex p xs + 1))"

definition Session_getCurrentStage :: "Session \<Rightarrow> Stage option" where
  "Session_getCurrentStage s =
     (if length (stages (roadmap s)) = 0 then None
      else js_index (stages (roadmap s)) (currentStageIndex s))"

definition Session_advanceStage :: "Session \<Rightarrow> bool \<times> Session" where
  "Session_advanceStage s =
     (if currentStageIndex s < int (length (stages (roadmap s))) - 1
      then (True, s\<lparr>currentStageIndex := currentStageIndex s + 1\<rparr>)
      else (False, s))"

definition Session_setStage :: "Session \<Rightarrow> int \<Rightarrow> bool \<times> Session" where
  "Session_setStage s index =
     (if index \<ge> 0 \<and> index < int (length (stages (roadmap s)))
      then (True, s\<lparr>currentStageIndex := index\<rparr>)
      else (False, s))"

definition Session_setStageByName :: "Session \<Rightarrow> string \<Rightarrow> bool \<times> Session" where
  "Session_setStageByName s nm =
     (if findIndex (\<lambda>stage. name stage = nm) (stages (roadmap s)) \<noteq> -1
      then (True, s\<lparr>currentStageIndex :=
                       findIndex (\<lambda>stage. name stage = nm) (stages (roadmap s))\<rparr>)
      else (False, s))"

section \<open>Handover.ts: the Handover singleton\<close>

text \<open>
  \<open>sessions\<close> is the \<open>Map<string, Session>\<close>.  A session object lives in this map only
  (the managers reach it through \<open>getCurrentSession\<close>), so a method that mutates the
  current session writes the changed session back under its key.
\<close>

record Handover =
  initialized :: bool
  defaultRoadmap :: "Roadmap option"
  sessions :: "string \<rightharpoonup> Session"
  currentSessionId :: "string option"

definition Handover_new :: Handover where
  "Handover_new =
     \<lparr>initialized = False, defaultRoadmap = None, sessions = Map.empty,
      currentSessionId = None\<rparr>"

definition initialize :: "Handover \<Rightarrow> Roadmap \<Rightarrow> Handover" where
  "initialize h r = h\<lparr>defaultRoadmap := Some r, initialized := True\<rparr>"

text \<open>
  \<open>startSession(sessionId, roadmap?)\<close>.  The result is the new session or \<open>null\<close>, the
  updated singleton, and the lines written with \<open>console.error\<close>.
\<close>

definition startSession ::
  "Handover \<Rightarrow> string \<Rightarrow> Roadmap option \<Rightarrow> Session option \<times> Handover \<times> LogLine list" where
  "startSession h sid rm =
     (if \<not> initialized h
      then (None, h, [ConsoleError ''Handover system not initialized''])
      else (case (case rm of Some r \<Rightarrow> Some r | None \<Rightarrow> defaultRoadmap h) of
              None \<Rightarrow> (None, h, [ConsoleError ''No roadmap provided for session''])
            | Some sessionRoadmap \<Rightarrow>
                (Some (Session_new sid sessionRoadmap),
                 h\<lparr>sessions := (sessions h)(sid \<mapsto> Session_new sid sessionRoadmap),
                   currentSessionId := Some sid\<rparr>,
                 [])))"

text \<open>
  \<open>getCurrentSession\<close>: \<open>!this.currentSessionId\<close> holds for \<open>null\<close> and for the empty
  string; \<open>this.sessions.get(id) || null\<close> is the session or \<open>null\<close>.
\<close>

definition getCurrentSession :: "Handover \<Rightarrow> Session option" where
  "getCurrentSession h =
     (case currentSessionId h of
        None \<Rightarrow> None
      | Some sid \<Rightarrow> (if sid = [] then None else sessions h sid))"

text \<open>
  \<open>endSession(sessionId?)\<close>: \<open>sessionId || this.currentSessionId\<close> takes the current id when
  the argument is missing or empty, and an empty \<open>idToEnd\<close> is falsy.
\<close>

definition endSession :: "Handover \<Rightarrow> string option \<Rightarrow> bool \<times> Handover" where
  "endSession h sid =
     (case (case sid of
              None \<Rightarrow> currentSessionId h
            | Some i \<Rightarrow> (if i = [] then currentSessionId h else Some i)) of
        None \<Rightarrow> (False, h)
      | Some idToEnd \<Rightarrow>
          (if idToEnd \<noteq> [] \<and> sessions h idToEnd \<noteq> None
           then (True,
                 h\<lparr>sessions := (sessions h)(idToEnd := None),
                   currentSessionId :=
                     (if currentSessionId h = Some idToEnd then None
                      else currentSessionId h)\<rparr>)
           else (False, h)))"

definition setCurrentSession :: "Handover \<Rightarrow> string \<Rightarrow> bool \<times> Handover" where
  "setCurrentSession h sid =
     (if sessions h sid \<noteq> None then (True, h\<lparr>currentSessionId := Some sid\<rparr>)
      else (False, h))"

definition getSession :: "Handover \<Rightarrow> string \<Rightarrow> Session option" where
  "getSession h sid = sessions h sid"

definition getCurrentStage :: "Handover \<Rightarrow> Stage option" where
  "getCurrentStage h =
     (case getCurrentSession h of
        None \<Rightarrow> None
      | Some session \<Rightarrow> Session_getCurrentStage session)"

definition isActionAllowed :: "Handover \<Rightarrow> string \<Rightarrow> bool" where
  "isActionAllowed h action =
     (case getCurrentStage h of
        None \<Rightarrow> False
      | Some stage \<Rightarrow> Stage_isActionAllowed stage action)"

text \<open>
  The methods below mutate the session object that \<open>getCurrentSession\<close> returned, that
  is the object stored under \<open>currentSessionId\<close>.
\<close>

definition store_session :: "Handover \<Rightarrow> Session \<Rightarrow> Handover" where
  "store_session h s =
     (case currentSessionId h of
        None \<Rightarrow> h
      | Some sid \<Rightarrow> h\<lparr>sessions := (sessions h)(sid \<mapsto> s)\<rparr>)"

definition advanceStage :: "Handover \<Rightarrow> bool \<times> Handover" where
  "advanceStage h =
     (case getCurrentSession h of
        None \<Rightarrow> (False, h)
      | Some session \<Rightarrow>
          (fst (Session_advanceStage session),
           store_session h (snd (Session_advanceStage session))))"

definition setStageByName :: "Handover \<Rightarrow> string \<Rightarrow> bool \<times> Handover" where
  "setStageByName h nm =
     (case getCurrentSession h of
        None \<Rightarrow> (False, h)
      | Some session \<Rightarrow>
          (fst (Session_setStageByName session nm),
           store_session h (snd (Session_setStageByName session nm))))"

text \<open>
  The class body declares \<open>setStage\<close> twice; the later declaration, which takes a name or
  an index, is the one the object has.
\<close>

datatype NameOrIndex = ByName string | ByIndex int

fun setStage :: "Handover \<Rightarrow> NameOrIndex \<Rightarrow> bool \<times> Handover" where
  "setStage h (ByName nm) = setStageByName h nm"
| "setStage h (ByIndex index) =
     (case getCurrentSession h of
        None \<Rightarrow> (False, h)
      | Some session \<Rightarrow>
          (fst (Session_setStage session index),
           store_session h (snd (Session_setStage session index))))"

section \<open>The scene's event emitter, the console and the clock\<close>

text \<open>
  \<open>emitted\<close> lists the calls of \<open>scene.events.emit\<close> in order, \<open>console\<close> the lines
  written with \<open>console.error\<close>, \<open>console.warn\<close> and \<open>console.log\<close>, and \<open>delayedCalls\<close>
  the callbacks handed to \<open>scene.time.delayedCall\<close> with their delay in milliseconds.
  \<open>Date.now()\<close> is an argument \<open>now\<close> of every function that reads the clock.
\<close>

datatype Payload =
    NoPayload
  | StageChangedPayload "Stage option" Stage
  | StagePayload Stage
  | ShotFiredPayload "real option"
  | AngleChangedPayload real

datatype DelayedCall = ClearCooldown | DelayedAction string

record Runtime =
  emitted :: "(string \<times> Payload) list"
  console :: "LogLine list"
  delayedCalls :: "(int \<times> DelayedCall) list"

definition Runtime_new :: Runtime where
  "Runtime_new = \<lparr>emitted = [], console = [], delayedCalls = []\<rparr>"

definition emit :: "string \<Rightarrow> Payload \<Rightarrow> Runtime \<Rightarrow> Runtime" where
  "emit event payload rt = rt\<lparr>emitted := emitted rt @ [(event, payload)]\<rparr>"

definition console_write :: "LogLine \<Rightarrow> Runtime \<Rightarrow> Runtime" where
  "console_write line rt = rt\<lparr>console := console rt @ [line]\<rparr>"

definition delayedCall :: "int \<Rightarrow> DelayedCall \<Rightarrow> Runtime \<Rightarrow> Runtime" where
  "delayedCall delay cb rt = rt\<lparr>delayedCalls := delayedCalls rt @ [(delay, cb)]\<rparr>"

text \<open>An uncaught JavaScript exception ends the running callback.\<close>

datatype JsError = TypeError string

datatype Completion = Returned | Threw JsError

section \<open>HandoverManager.ts\<close>

text \<open>
  The manager holds the \<open>Handover\<close> singleton and a scene.  Its methods are given the
  singleton and the runtime; the callback of \<open>performAction\<close> works on the state of the
  system that passed it, paired with the runtime.
\<close>

definition HandoverManager_setStage ::
  "string \<Rightarrow> Handover \<times> Runtime \<Rightarrow> bool \<times> (Handover \<times> Runtime)" where
  "HandoverManager_setStage stageName hr =
     (fst (setStage (fst hr) (ByName stageName)),
      (snd (setStage (fst hr) (ByName stageName)), snd hr))"

definition HandoverManager_advanceStage ::
  "Handover \<times> Runtime \<Rightarrow> bool \<times> (Handover \<times> Runtime)" where
  "HandoverManager_advanceStage hr =
     (fst (advanceStage (fst hr)), (snd (advanceStage (fst hr)), snd hr))"

definition HandoverManager_isActionAllowed :: "Handover \<Rightarrow> string \<Rightarrow> bool" where
  "HandoverManager_isActionAllowed h action = isActionAllowed h action"

definition not_allowed_warning :: "string \<Rightarrow> LogLine" where
  "not_allowed_warning action =
     ConsoleWarn (''Action '' @ [CHR 0x27] @ action @ [CHR 0x27]
                  @ '' is not allowed in the current stage'')"

definition performAction ::
  "Handover \<Rightarrow> string \<Rightarrow> ('s \<times> Runtime \<Rightarrow> 's \<times> Runtime) \<Rightarrow> 's \<times> Runtime
     \<Rightarrow> bool \<times> ('s \<times> Runtime)" where
  "performAction h action callback st =
     (if HandoverManager_isActionAllowed h action
      then (True, callback st)
      else (False, (fst st, console_write (not_allowed_warning action) (snd st))))"

text \<open>
  The listener that \<open>setupEventListeners\<close> registers for \<open>handover-stage-changed\<close>.  It
  runs when that event is emitted on the scene.
\<close>

definition HandoverManager_onStageChanged :: "Stage option \<Rightarrow> Stage \<Rightarrow> Runtime \<Rightarrow> Runtime" where
  "HandoverManager_onStageChanged previous current rt =
     emit (''stage-'' @ name current) (StagePayload current)
       (console_write
          (ConsoleLog (''Stage changed: ''
                       @ (case previous of None \<Rightarrow> ''none''
                          | Some p \<Rightarrow> (if name p = [] then ''none'' else name p))
                       @ '' -> '' @ name current))
          rt)"

text \<open>\<open>HandoverFactory.createGameRoadmap\<close>; \<open>requiredScenes\<close> is kept as one string.\<close>

definition createGameRoadmap :: Roadmap where
  "createGameRoadmap =
     \<lparr>roadmapName = ''MainGameRoadmap'',
      stages =
        [\<lparr>name = ''MainMenu'', allowedActions = [''startGame'', ''openSettings'', ''viewHelp''],
          metadata = [(''requiredScenes'', ''MainMenu'')]\<rparr>,
         \<lparr>name = ''GamePreparation'', allowedActions = [''aim'', ''charge'', ''cancelShot''],
          metadata = [(''requiredScenes'', ''Game'')]\<rparr>,
         \<lparr>name = ''ActiveGameplay'', allowedActions = [''aim'', ''charge'', ''fire'', ''pause''],
          metadata = [(''requiredScenes'', ''Game'')]\<rparr>,
         \<lparr>name = ''Paused'', allowedActions = [''resume'', ''restart'', ''quit''],
          metadata = [(''requiredScenes'', ''Game'')]\<rparr>,
         \<lparr>name = ''LevelComplete'', allowedActions = [''nextLevel'', ''retry'', ''mainMenu''],
          metadata = [(''requiredScenes'', ''Game,GameOver'')]\<rparr>,
         \<lparr>name = ''GameOver'', allowedActions = [''restart'', ''mainMenu''],
          metadata = [(''requiredScenes'', ''GameOver'')]\<rparr>],
      roadmapMetadata = []\<rparr>"

section \<open>InputSystem.ts\<close>

text \<open>
  \<open>inputBuffer\<close> is indexed by \<open>'left'\<close> and \<open>'right'\<close> only, and the constructor sets both
  entries to the empty array.  The listeners of the emitted events (\<open>ShotSystem\<close>,
  \<open>AimSystem\<close>) are embedded as functions of their own below.
\<close>

datatype Direction = DLeft | DRight

fun direction_key :: "Direction \<Rightarrow> string" where
  "direction_key DLeft = ''left''"
| "direction_key DRight = ''right''"

fun oppositeDir :: "Direction \<Rightarrow> Direction" where
  "oppositeDir DLeft = DRight"
| "oppositeDir DRight = DLeft"

record InputSystem =
  lastInputTime :: "string \<rightharpoonup> int"
  isInputActive :: "string \<rightharpoonup> bool"
  inputBuffer :: "Direction \<Rightarrow> int list"
  disabledKeys :: "string set"

definition CLICK_DEBOUNCE_MS :: int where
  "CLICK_DEBOUNCE_MS = 200"

definition KEY_DELAY_MS :: int where
  "KEY_DELAY_MS = 100"

definition BUFFER_SIZE :: nat where
  "BUFFER_SIZE = 5"

definition InputSystem_new :: InputSystem where
  "InputSystem_new =
     \<lparr>lastInputTime = Map.empty, isInputActive = Map.empty,
      inputBuffer = (\<lambda>d. []), disabledKeys = {}\<rparr>"

text \<open>\<open>this.lastInputTime[key] || 0\<close>\<close>

definition last_time_or_zero :: "InputSystem \<Rightarrow> string \<Rightarrow> int" where
  "last_time_or_zero sys k = (case lastInputTime sys k of None \<Rightarrow> 0 | Some t \<Rightarrow> t)"

text \<open>The truthiness of \<open>this.isInputActive[key]\<close>\<close>

definition input_active :: "InputSystem \<Rightarrow> string \<Rightarrow> bool" where
  "input_active sys k = (case isInputActive sys k of None \<Rightarrow> False | Some b \<Rightarrow> b)"

definition handleSpacebarPress ::
  "int \<Rightarrow> Handover \<Rightarrow> InputSystem \<times> Runtime \<Rightarrow> InputSystem \<times> Runtime" where
  "handleSpacebarPress now h st =
     (if ''spacebar'' \<in> disabledKeys (fst st) then st
      else if now - last_time_or_zero (fst st) ''spacebar'' < CLICK_DEBOUNCE_MS then st
      else snd (performAction h ''charge''
                  (\<lambda>c. (fst c, emit ''input-charge-start'' NoPayload (snd c)))
                  ((fst st)\<lparr>lastInputTime := (lastInputTime (fst st))(''spacebar'' \<mapsto> now),
                            isInputActive := (isInputActive (fst st))(''spacebar'' \<mapsto> True)\<rparr>,
                   snd st)))"

definition handleSpacebarRelease ::
  "Handover \<Rightarrow> InputSystem \<times> Runtime \<Rightarrow> InputSystem \<times> Runtime" where
  "handleSpacebarRelease h st =
     (if \<not> input_active (fst st) ''spacebar'' then st
      else snd (performAction h ''fire''
                  (\<lambda>c. (fst c, emit ''input-fire'' NoPayload (snd c)))
                  ((fst st)\<lparr>isInputActive := (isInputActive (fst st))(''spacebar'' \<mapsto> False)\<rparr>,
                   snd st)))"

text \<open>
  \<open>isRapidDirectionChange\<close>.  It runs after the press was pushed, so the buffer of
  \<open>direction\<close> is not empty when \<open>handleDirectionalInput\<close> calls it; on an empty buffer
  \<open>latestCurrent\<close> is \<open>undefined\<close>, the difference is \<open>NaN\<close> and the comparison is false.
\<close>

definition isRapidDirectionChange :: "InputSystem \<Rightarrow> Direction \<Rightarrow> bool" where
  "isRapidDirectionChange sys direction =
     (if length (inputBuffer sys (oppositeDir direction)) = 0 then False
      else if inputBuffer sys direction = [] then False
      else \<bar>last (inputBuffer sys direction) - last (inputBuffer sys (oppositeDir direction))\<bar>
             < 50)"

text \<open>\<open>push(now)\<close>, then \<open>shift()\<close> when the buffer is longer than \<open>BUFFER_SIZE\<close>.\<close>

definition push_bounded :: "int list \<Rightarrow> int \<Rightarrow> int list" where
  "push_bounded buf now =
     (if length (buf @ [now]) > BUFFER_SIZE then tl (buf @ [now]) else buf @ [now])"

definition handleDirectionalInput ::
  "int \<Rightarrow> Direction \<Rightarrow> Handover \<Rightarrow> InputSystem \<times> Runtime \<Rightarrow> InputSystem \<times> Runtime" where
  "handleDirectionalInput now direction h st =
     (if direction_key direction \<in> disabledKeys (fst st) then st
      else if isRapidDirectionChange
                ((fst st)\<lparr>inputBuffer :=
                   (inputBuffer (fst st))
                     (direction := push_bounded (inputBuffer (fst st) direction) now)\<rparr>)
                direction
      then ((fst st)\<lparr>inputBuffer :=
              (inputBuffer (fst st))
                (direction := push_bounded (inputBuffer (fst st) direction) now)\<rparr>,
            snd st)
      else snd (performAction h ''aim''
                  (\<lambda>c. (fst c, emit (''input-aim-'' @ direction_key direction) NoPayload (snd c)))
                  ((fst st)\<lparr>inputBuffer :=
                      (inputBuffer (fst st))
                        (direction := push_bounded (inputBuffer (fst st) direction) now)\<rparr>,
                   snd st)))"

definition handleDelayedInput ::
  "int \<Rightarrow> string \<Rightarrow> InputSystem \<times> Runtime \<Rightarrow> InputSystem \<times> Runtime" where
  "handleDelayedInput now action st =
     (if action \<in> disabledKeys (fst st) then st
      else if now - last_time_or_zero (fst st) action < CLICK_DEBOUNCE_MS then st
      else ((fst st)\<lparr>lastInputTime := (lastInputTime (fst st))(action \<mapsto> now)\<rparr>,
            delayedCall KEY_DELAY_MS (DelayedAction action) (snd st)))"

text \<open>The callback that \<open>handleDelayedInput\<close> scheduled, run by the scene's clock.\<close>

definition runDelayedAction ::
  "string \<Rightarrow> Handover \<Rightarrow> InputSystem \<times> Runtime \<Rightarrow> InputSystem \<times> Runtime" where
  "runDelayedAction action h st =
     snd (performAction h action
            (\<lambda>c. (fst c, emit (''input-'' @ action) NoPayload (snd c))) st)"

definition setKeyDisabled :: "InputSystem \<Rightarrow> string \<Rightarrow> bool \<Rightarrow> InputSystem" where
  "setKeyDisabled sys k disabled =
     (if disabled then sys\<lparr>disabledKeys := insert k (disabledKeys sys)\<rparr>
      else sys\<lparr>disabledKeys := disabledKeys sys - {k}\<rparr>)"

text \<open>
  \<open>InputSystem.update\<close>.  With no recorded press time the subtraction yields \<open>NaN\<close> and
  the comparison with 2000 is false.
\<close>

definition InputSystem_update :: "int \<Rightarrow> InputSystem \<times> Runtime \<Rightarrow> InputSystem \<times> Runtime" where
  "InputSystem_update now st =
     (if input_active (fst st) ''spacebar''
      then (case lastInputTime (fst st) ''spacebar'' of
              None \<Rightarrow> st
            | Some pressed \<Rightarrow>
                (if now - pressed > 2000
                 then ((fst st)\<lparr>isInputActive :=
                                   (isInputActive (fst st))(''spacebar'' \<mapsto> False)\<rparr>,
                       emit ''input-charge-max'' NoPayload (snd st))
                 else st))
      else st)"

section \<open>ShotSystem.ts\<close>

text \<open>
  \<open>currentCharge\<close> is \<open>None\<close> when the field holds \<open>undefined\<close>.  The charge meter and the
  charge text are drawing calls on Phaser objects and are left out.
\<close>

record ShotSystem =
  isCharging :: bool
  chargeStartTime :: int
  currentCharge :: "real option"
  inCooldown :: bool

definition MAX_CHARGE_DURATION :: int where
  "MAX_CHARGE_DURATION = 2000"

definition MIN_POWER :: real where
  "MIN_POWER = 0.1"

definition MAX_POWER :: real where
  "MAX_POWER = 1.0"

definition POWER_RATE :: real where
  "POWER_RATE = 0.0005"

definition ShotSystem_new :: ShotSystem where
  "ShotSystem_new =
     \<lparr>isCharging = False, chargeStartTime = 0, currentCharge = Some 0, inCooldown = False\<rparr>"

definition canStartShot :: "ShotSystem \<Rightarrow> bool" where
  "canStartShot s = (\<not> isCharging s \<and> \<not> inCooldown s)"

definition startCharging :: "int \<Rightarrow> ShotSystem \<Rightarrow> ShotSystem" where
  "startCharging now s =
     (if \<not> canStartShot s then s
      else s\<lparr>isCharging := True, chargeStartTime := now, currentCharge := Some MIN_POWER\<rparr>)"

text \<open>
  The callback that \<open>releaseShot\<close> passes to \<open>performAction\<close>: it emits \<open>shot-fired\<close> and
  then formats \<open>finalPower.toFixed(2)\<close> for \<open>console.log\<close>, which throws on \<open>undefined\<close>.
  The first component of the callback's state records that exception.  The logged line
  \<open>Shot fired with power: ...\<close> is \<open>ConsoleLogShotFired\<close> with the number unformatted.
\<close>

definition fire_callback ::
  "real option \<Rightarrow> Completion \<times> Runtime \<Rightarrow> Completion \<times> Runtime" where
  "fire_callback finalPower c =
     (case finalPower of
        None \<Rightarrow>
          (Threw (TypeError (''Cannot read properties of undefined (reading ''
                            @ [CHR 0x27] @ ''toFixed'' @ [CHR 0x27] @ '')'')),
           emit ''shot-fired'' (ShotFiredPayload finalPower) (snd c))
      | Some p \<Rightarrow>
          (fst c,
           console_write (ConsoleLogShotFired p)
             (emit ''shot-fired'' (ShotFiredPayload finalPower) (snd c))))"

definition releaseShot ::
  "Handover \<Rightarrow> ShotSystem \<times> Runtime \<Rightarrow> Completion \<times> (ShotSystem \<times> Runtime)" where
  "releaseShot h st =
     (if \<not> isCharging (fst st) then (Returned, st)
      else (fst (snd (performAction h ''fire'' (fire_callback (currentCharge (fst st)))
                        (Returned, delayedCall 200 ClearCooldown (snd st)))),
            ((fst st)\<lparr>isCharging := False, inCooldown := True\<rparr>,
             snd (snd (performAction h ''fire'' (fire_callback (currentCharge (fst st)))
                         (Returned, delayedCall 200 ClearCooldown (snd st)))))))"

text \<open>The callback that \<open>releaseShot\<close> scheduled 200 ms ahead.\<close>

definition clearCooldown :: "ShotSystem \<Rightarrow> ShotSystem" where
  "clearCooldown s = s\<lparr>inCooldown := False\<rparr>"

text \<open>
  \<open>handleMaxCharge\<close>.  The class declares neither a field \<open>MAX_CHARGE_POWER\<close> nor a method
  \<open>fire\<close>: the read yields \<open>undefined\<close>, which is stored in \<open>currentCharge\<close>, and the call
  \<open>this.fire()\<close> throws a \<open>TypeError\<close>.
\<close>

definition handleMaxCharge ::
  "ShotSystem \<times> Runtime \<Rightarrow> Completion \<times> (ShotSystem \<times> Runtime)" where
  "handleMaxCharge st =
     (if \<not> isCharging (fst st) then (Returned, st)
      else (Threw (TypeError ''this.fire is not a function''),
            ((fst st)\<lparr>currentCharge := None\<rparr>, snd st)))"

definition ShotSystem_update ::
  "int \<Rightarrow> ShotSystem \<times> Runtime \<Rightarrow> Completion \<times> (ShotSystem \<times> Runtime)" where
  "ShotSystem_update now st =
     (if isCharging (fst st)
      then (if now - chargeStartTime (fst st) \<ge> MAX_CHARGE_DURATION
            then handleMaxCharge st
            else (Returned,
                  ((fst st)\<lparr>currentCharge :=
                     Some (min (MIN_POWER
                                + real_of_int (now - chargeStartTime (fst st)) * POWER_RATE)
                               MAX_POWER)\<rparr>,
                   snd st)))
      else (Returned, st))"

definition cancelCharge :: "ShotSystem \<Rightarrow> ShotSystem" where
  "cancelCharge s = (if isCharging s then s\<lparr>isCharging := False\<rparr> else s)"

section \<open>AimSystem.ts\<close>

text \<open>
  \<open>inputDirection\<close> is a \<open>string | null\<close> that is only ever assigned \<open>'left'\<close>, \<open>'right'\<close> or
  \<open>null\<close>.  The trajectory preview is a drawing call and is left out.
\<close>

record AimSystem =
  currentAngle :: real
  targetAngle :: real
  isAiming :: bool
  inputDirection :: "Direction option"
  lastDirectionChange :: int

definition MIN_ANGLE :: real where
  "MIN_ANGLE = -80"

definition MAX_ANGLE :: real where
  "MAX_ANGLE = 80"

definition ANGLE_STEP :: real where
  "ANGLE_STEP = 2"

definition ANGLE_SMOOTHING :: real where
  "ANGLE_SMOOTHING = 0.1"

definition DIRECTION_CHANGE_THRESHOLD_MS :: int where
  "DIRECTION_CHANGE_THRESHOLD_MS = 100"

definition AimSystem_new :: AimSystem where
  "AimSystem_new =
     \<lparr>currentAngle = 0, targetAngle = 0, isAiming = False, inputDirection = None,
      lastDirectionChange = 0\<rparr>"

text \<open>The callback that \<open>setAimDirection\<close> passes to \<open>performAction\<close>.\<close>

definition aim_callback :: "Direction \<Rightarrow> AimSystem \<times> Runtime \<Rightarrow> AimSystem \<times> Runtime" where
  "aim_callback direction c =
     ((fst c)\<lparr>isAiming := True,
              targetAngle :=
                (case direction of
                   DLeft \<Rightarrow> max (currentAngle (fst c) - ANGLE_STEP) MIN_ANGLE
                 | DRight \<Rightarrow> min (currentAngle (fst c) + ANGLE_STEP) MAX_ANGLE)\<rparr>,
      snd c)"

definition setAimDirection ::
  "int \<Rightarrow> Direction \<Rightarrow> Handover \<Rightarrow> AimSystem \<times> Runtime \<Rightarrow> AimSystem \<times> Runtime" where
  "setAimDirection now direction h st =
     (if inputDirection (fst st) \<noteq> Some direction
         \<and> now - lastDirectionChange (fst st) < DIRECTION_CHANGE_THRESHOLD_MS
      then st
      else snd (performAction h ''aim'' (aim_callback direction)
                  ((fst st)\<lparr>lastDirectionChange :=
                              (if inputDirection (fst st) \<noteq> Some direction then now
                               else lastDirectionChange (fst st)),
                            inputDirection := Some direction\<rparr>,
                   snd st)))"

definition resetAim :: "AimSystem \<Rightarrow> AimSystem" where
  "resetAim s = s\<lparr>isAiming := False, inputDirection := None\<rparr>"

text \<open>The first statement of \<open>update\<close>: the target returns to the centre when idle.\<close>

definition recentre :: "AimSystem \<Rightarrow> AimSystem" where
  "recentre s =
     (if \<not> isAiming s \<and> inputDirection s = None then s\<lparr>targetAngle := 0\<rparr> else s)"

text \<open>The smoothed angle, snapped to the target when closer than 0.1 degrees.\<close>

definition smoothed :: "real \<Rightarrow> real \<Rightarrow> real" where
  "smoothed current target =
     (if \<bar>current + (target - current) * ANGLE_SMOOTHING - target\<bar> < 0.1 then target
      else current + (target - current) * ANGLE_SMOOTHING)"

definition AimSystem_update :: "AimSystem \<times> Runtime \<Rightarrow> AimSystem \<times> Runtime" where
  "AimSystem_update st =
     (if currentAngle (recentre (fst st)) \<noteq> targetAngle (recentre (fst st))
      then ((recentre (fst st))
              \<lparr>currentAngle :=
                 smoothed (currentAngle (recentre (fst st))) (targetAngle (recentre (fst st)))\<rparr>,
            emit ''aim-angle-changed''
              (AngleChangedPayload
                 (smoothed (currentAngle (recentre (fst st))) (targetAngle (recentre (fst st)))))
              (snd st))
      else (recentre (fst st), snd st))"

text \<open>\<open>Phaser.Math.Clamp(value, min, max)\<close> is \<open>Math.max(min, Math.min(max, value))\<close>.\<close>

definition Clamp :: "real \<Rightarrow> real \<Rightarrow> real \<Rightarrow> real" where
  "Clamp v lo hi = max lo (min hi v)"

definition setAngleLimits :: "AimSystem \<Rightarrow> AimSystem" where
  "setAngleLimits s =
     s\<lparr>currentAngle := Clamp (currentAngle s) MIN_ANGLE MAX_ANGLE,
       targetAngle := Clamp (targetAngle s) MIN_ANGLE MAX_ANGLE\<rparr>"

text \<open>
  What can happen to an \<open>AimSystem\<close> between two frames: the \<open>input-aim-left\<close> or
  \<open>input-aim-right\<close> listener runs (at a clock reading, with the gate as it is then), the
  \<open>shot-fired\<close> listener runs, \<open>setAngleLimits\<close> is called, or the frame's \<open>update\<close> runs.
\<close>

datatype AimCall =
    Nudge int Direction Handover
  | ShotFiredHeard
  | AngleLimitsSet
  | Tick

fun aim_call :: "AimCall \<Rightarrow> AimSystem \<times> Runtime \<Rightarrow> AimSystem \<times> Runtime" where
  "aim_call (Nudge now direction h) st = setAimDirection now direction h st"
| "aim_call ShotFiredHeard st = (resetAim (fst st), snd st)"
| "aim_call AngleLimitsSet st = (setAngleLimits (fst st), snd st)"
| "aim_call Tick st = AimSystem_update st"

fun aim_calls :: "AimCall list \<Rightarrow> AimSystem \<times> Runtime \<Rightarrow> AimSystem \<times> Runtime" where
  "aim_calls [] st = st"
| "aim_calls (c # cs) st = aim_calls cs (aim_call c st)"

text \<open>Both angles lie in the closed range from \<open>MIN_ANGLE\<close> to \<open>MAX_ANGLE\<close>.\<close>

definition angles_in_range :: "AimSystem \<Rightarrow> bool" where
  "angles_in_range s =
     (MIN_ANGLE \<le> currentAngle s \<and> currentAngle s \<le> MAX_ANGLE
      \<and> MIN_ANGLE \<le> targetAngle s \<and> targetAngle s \<le> MAX_ANGLE)"

text \<open>\<open>n\<close> frames in a row with no other call in between.\<close>

fun ticks :: "nat \<Rightarrow> AimSystem \<times> Runtime \<Rightarrow> AimSystem \<times> Runtime" where
  "ticks 0 st = st"
| "ticks (Suc n) st = ticks n (AimSystem_update st)"

section \<open>Example configurations\<close>

text \<open>
  The gate as a scene sets it up: \<open>initialize\<close> with the game roadmap, then
  \<open>startSession\<close>; the session is at \<open>MainMenu\<close>.  \<open>aiming_gate\<close> is the same gate after
  \<open>setStage('GamePreparation')\<close>, where \<open>aim\<close> and \<open>charge\<close> are allowed.
\<close>

definition example_gate :: Handover where
  "example_gate =
     fst (snd (startSession (initialize Handover_new createGameRoadmap) ''session_1'' None))"

definition aiming_gate :: Handover where
  "aiming_gate = snd (setStage example_gate (ByName ''GamePreparation''))"

text \<open>The same gate after \<open>setStage(5)\<close>: the session is at \<open>GameOver\<close>, the last stage.\<close>

definition last_stage_gate :: Handover where
  "last_stage_gate = snd (setStage example_gate (ByIndex 5))"

text \<open>
  A fresh \<open>InputSystem\<close> in a scene where aiming is allowed, and four keyboard histories:
  \<open>keydown-LEFT\<close> at 1000 ms; then \<open>keydown-RIGHT\<close> at 1020 ms; then either
  \<open>keydown-RIGHT\<close> at 1100 ms or \<open>keydown-LEFT\<close> at 1060 ms.
\<close>

definition input_start :: "InputSystem \<times> Runtime" where
  "input_start = (InputSystem_new, Runtime_new)"

definition after_left :: "InputSystem \<times> Runtime" where
  "after_left = handleDirectionalInput 1000 DLeft aiming_gate input_start"

definition after_right_20 :: "InputSystem \<times> Runtime" where
  "after_right_20 = handleDirectionalInput 1020 DRight aiming_gate after_left"

definition after_right_100 :: "InputSystem \<times> Runtime" where
  "after_right_100 = handleDirectionalInput 1100 DRight aiming_gate after_right_20"

definition after_left_60 :: "InputSystem \<times> Runtime" where
  "after_left_60 = handleDirectionalInput 1060 DLeft aiming_gate after_right_20"

text \<open>
  A \<open>ShotSystem\<close> whose \<open>startCharging\<close> ran at clock reading 0, and the frames that follow:
  \<open>charge_samples\<close> runs \<open>update\<close> at each of the given clock readings in turn and records
  how each call ended and what \<open>getCurrentCharge()\<close> returns after it.
\<close>

definition charging_since_0 :: "ShotSystem \<times> Runtime" where
  "charging_since_0 = (startCharging 0 ShotSystem_new, Runtime_new)"

fun charge_samples ::
  "int list \<Rightarrow> ShotSystem \<times> Runtime \<Rightarrow> (Completion \<times> real option) list" where
  "charge_samples [] st = []"
| "charge_samples (now # later) st =
     (fst (ShotSystem_update now st), currentCharge (fst (snd (ShotSystem_update now st))))
     # charge_samples later (snd (ShotSystem_update now st))"

text \<open>
  A fresh \<open>AimSystem\<close> whose \<open>input-aim-left\<close> listener ran once, at clock reading 1000,
  while aiming was allowed; and an idle \<open>AimSystem\<close> that a shot left at 5 degrees.
\<close>

definition nudged_left :: "AimSystem \<times> Runtime" where
  "nudged_left = setAimDirection 1000 DLeft aiming_gate (AimSystem_new, Runtime_new)"

definition idle_at_5 :: "AimSystem \<times> Runtime" where
  "idle_at_5 = (AimSystem_new\<lparr>currentAngle := 5, targetAngle := 5\<rparr>, Runtime_new)"

text \<open>
  The factor by which one smoothing step of \<open>update\<close> shrinks the distance between the
  current angle and its target.
\<close>

definition decay :: real where
  "decay = 1 - ANGLE_SMOOTHING"

text \<open>
  An \<open>AimSystem\<close> half a degree from the right limit, and six calls that keep nudging it
  to the right, one frame after each nudge.
\<close>

definition near_right_limit :: "AimSystem \<times> Runtime" where
  "near_right_limit =
     (AimSystem_new\<lparr>currentAngle := 795 / 10, targetAngle := 795 / 10\<rparr>, Runtime_new)"

definition nudges_right :: "AimCall list" where
  "nudges_right =
     [Nudge 1000 DRight aiming_gate, Tick, Nudge 1016 DRight aiming_gate, Tick,
      Nudge 1032 DRight aiming_gate, Tick]"

text \<open>
  An \<open>InputSystem\<close> whose left buffer is full, and the same after \<open>keydown-LEFT\<close> at
  1000 ms.
\<close>

definition full_left :: "InputSystem \<times> Runtime" where
  "full_left =
     (InputSystem_new\<lparr>inputBuffer := (\<lambda>d. [])(DLeft := [100, 200, 300, 400, 500])\<rparr>,
      Runtime_new)"

definition full_left_pressed :: "InputSystem \<times> Runtime" where
  "full_left_pressed = handleDirectionalInput 1000 DLeft aiming_gate full_left"

section \<open>Facts about the example configurations\<close>

lemma example_gate_session:
  "getCurrentSession example_gate = Some (Session_new ''session_1'' createGameRoadmap)"
  by (simp add: example_gate_def startSession_def initialize_def Handover_new_def
      getCurrentSession_def)

lemma aiming_gate_session:
  "getCurrentSession aiming_gate =
     Some ((Session_new ''session_1'' createGameRoadmap)\<lparr>currentStageIndex := 1\<rparr>)"
  by (simp add: example_gate_def aiming_gate_def startSession_def initialize_def
      Handover_new_def createGameRoadmap_def Session_new_def setStageByName_def
      getCurrentSession_def Session_setStageByName_def store_session_def)

lemma last_stage_gate_session:
  "getCurrentSession last_stage_gate =
     Some ((Session_new ''session_1'' createGameRoadmap)\<lparr>currentStageIndex := 5\<rparr>)"
  by (simp add: example_gate_def last_stage_gate_def startSession_def initialize_def
      Handover_new_def createGameRoadmap_def Session_new_def getCurrentSession_def
      Session_setStage_def store_session_def)

lemma example_gate_stage:
  "getCurrentStage example_gate =
     Some \<lparr>name = ''MainMenu'', allowedActions = [''startGame'', ''openSettings'', ''viewHelp''],
           metadata = [(''requiredScenes'', ''MainMenu'')]\<rparr>"
  by (simp add: getCurrentStage_def example_gate_session Session_getCurrentStage_def
      Session_new_def createGameRoadmap_def js_index_def)

lemma aiming_gate_stage:
  "getCurrentStage aiming_gate =
     Some \<lparr>name = ''GamePreparation'', allowedActions = [''aim'', ''charge'', ''cancelShot''],
           metadata = [(''requiredScenes'', ''Game'')]\<rparr>"
  by (simp add: getCurrentStage_def aiming_gate_session Session_getCurrentStage_def
      Session_new_def createGameRoadmap_def js_index_def)

lemma aim_allowed_when_aiming: "isActionAllowed aiming_gate ''aim''"
  by (simp add: isActionAllowed_def aiming_gate_stage Stage_isActionAllowed_def)

lemma aim_denied_in_menu: "\<not> isActionAllowed example_gate ''aim''"
  by (simp add: isActionAllowed_def example_gate_stage Stage_isActionAllowed_def)

section \<open>Array search and the session store\<close>

lemma findIndex_lower: "-1 \<le> findIndex p xs"
  by (induction xs) auto

lemma findIndex_none: "(findIndex p xs = -1) = (\<forall>x \<in> set xs. \<not> p x)"
proof (induction xs)
  case Nil
  show ?case by simp
next
  case (Cons x xs)
  have "-1 \<le> findIndex p xs" by (rule findIndex_lower)
  with Cons show ?case by auto
qed

lemma findIndex_range:
  "findIndex p xs \<noteq> -1 \<Longrightarrow> 0 \<le> findIndex p xs \<and> findIndex p xs < int (length xs)"
proof (induction xs)
  case Nil
  then show ?case by simp
next
  case (Cons x xs)
  then show ?case by (auto split: if_splits)
qed

lemma store_same: "getCurrentSession h = Some s \<Longrightarrow> store_session h s = h"
  by (auto simp: getCurrentSession_def store_session_def map_upd_triv
      split: option.splits if_splits)

lemma store_get:
  "getCurrentSession h = Some s \<Longrightarrow> getCurrentSession (store_session h s') = Some s'"
  by (auto simp: getCurrentSession_def store_session_def split: option.splits if_splits)

section \<open>The action gate\<close>



section \<open>Starting a session\<close>

text \<open>
  Claim C4, as amended.  \<open>startSession(id, roadmap?)\<close> returns \<open>null\<close> exactly when the gate
  was never initialized, whether or not a roadmap comes with the call, or when neither the
  call nor the gate has a roadmap.  In every other case it creates a session with
  \<open>currentStageIndex\<close> 0 over the supplied roadmap (the default one when none is supplied),
  registers it under \<open>id\<close> and sets \<open>currentSessionId\<close> to \<open>id\<close>; for a non-empty \<open>id\<close>
  it is then the session that \<open>getCurrentSession\<close> returns.
\<close>

theorem startSession_result:
  "(fst (startSession h sid rm) = None)
     = (\<not> initialized h \<or> (rm = None \<and> defaultRoadmap h = None))
   \<and> (fst (startSession h sid rm) = Some s \<longrightarrow>
        currentStageIndex s = 0
        \<and> sessionId s = sid
        \<and> Some (roadmap s) = (case rm of Some r \<Rightarrow> Some r | None \<Rightarrow> defaultRoadmap h)
        \<and> sessions (fst (snd (startSession h sid rm))) sid = Some s
        \<and> currentSessionId (fst (snd (startSession h sid rm))) = Some sid
        \<and> (sid \<noteq> [] \<longrightarrow> getCurrentSession (fst (snd (startSession h sid rm))) = Some s))"
  by (auto simp: startSession_def Session_new_def getCurrentSession_def split: option.splits)

theorem startSession_result_witness:
  "fst (startSession (initialize Handover_new createGameRoadmap) ''session_1'' None)
     = Some (Session_new ''session_1'' createGameRoadmap)
   \<and> currentStageIndex (Session_new ''session_1'' createGameRoadmap) = 0
   \<and> getCurrentSession example_gate = Some (Session_new ''session_1'' createGameRoadmap)
   \<and> fst (startSession Handover_new ''session_1'' None) = None"
proof -
  have started:
    "fst (startSession (initialize Handover_new createGameRoadmap) ''session_1'' None)
       = Some (Session_new ''session_1'' createGameRoadmap)"
    by (simp add: startSession_def initialize_def Handover_new_def)
  have fresh: "\<not> initialized Handover_new"
    by (simp add: Handover_new_def)
  show ?thesis
    using started fresh
      startSession_result
        [of "initialize Handover_new createGameRoadmap" "''session_1''" None
            "Session_new ''session_1'' createGameRoadmap"]
      startSession_result
        [of Handover_new "''session_1''" None "Session_new ''session_1'' createGameRoadmap"]
    by (simp add: example_gate_def)
qed

text \<open>
  Claim C4 as stated fails: a gate that was never initialized returns \<open>null\<close> although a
  roadmap is supplied with the call.
\<close>

theorem startSession_uninitialized_counterexample:
  "\<not> ((fst (startSession Handover_new ''session_1'' (Some createGameRoadmap)) = None)
       = (\<not> initialized Handover_new \<and> Some createGameRoadmap = (None :: Roadmap option)))"
  by (simp add: startSession_def Handover_new_def)

section \<open>Stage navigation\<close>

text \<open>
  Claim C9.  For the current session \<open>s\<close>: \<open>setStage\<close> with a name that no stage of the
  roadmap has, or with an index outside the roadmap, returns false and leaves the session
  and the gate as they were; \<open>advanceStage\<close> at the last stage does the same; below the last
  stage it returns true and the index is one higher.  \<open>advanceStage\<close> returns true exactly
  when a next stage exists.
\<close>

theorem failed_navigation_noop:
  "getCurrentSession h = Some s \<Longrightarrow>
     ((\<forall>st \<in> set (stages (roadmap s)). name st \<noteq> nm) \<longrightarrow>
        Session_setStageByName s nm = (False, s) \<and> setStage h (ByName nm) = (False, h))
     \<and> ((i < 0 \<or> int (length (stages (roadmap s))) \<le> i) \<longrightarrow>
        Session_setStage s i = (False, s) \<and> setStage h (ByIndex i) = (False, h))
     \<and> (currentStageIndex s = int (length (stages (roadmap s))) - 1 \<longrightarrow>
        Session_advanceStage s = (False, s) \<and> advanceStage h = (False, h))
     \<and> (currentStageIndex s < int (length (stages (roadmap s))) - 1 \<longrightarrow>
        Session_advanceStage s = (True, s\<lparr>currentStageIndex := currentStageIndex s + 1\<rparr>)
        \<and> fst (advanceStage h) = True
        \<and> getCurrentSession (snd (advanceStage h))
            = Some (s\<lparr>currentStageIndex := currentStageIndex s + 1\<rparr>))
     \<and> fst (Session_advanceStage s)
         = (currentStageIndex s + 1 < int (length (stages (roadmap s))))"
proof -
  assume cur: "getCurrentSession h = Some s"
  have byName: "(\<forall>st \<in> set (stages (roadmap s)). name st \<noteq> nm) \<longrightarrow>
      Session_setStageByName s nm = (False, s) \<and> setStage h (ByName nm) = (False, h)"
  proof
    assume "\<forall>st \<in> set (stages (roadmap s)). name st \<noteq> nm"
    then have "findIndex (\<lambda>stage. name stage = nm) (stages (roadmap s)) = -1"
      by (simp add: findIndex_none)
    then have "Session_setStageByName s nm = (False, s)"
      by (simp add: Session_setStageByName_def)
    then show "Session_setStageByName s nm = (False, s) \<and> setStage h (ByName nm) = (False, h)"
      using cur by (simp add: setStageByName_def store_same)
  qed
  have byIndex: "(i < 0 \<or> int (length (stages (roadmap s))) \<le> i) \<longrightarrow>
      Session_setStage s i = (False, s) \<and> setStage h (ByIndex i) = (False, h)"
  proof
    assume "i < 0 \<or> int (length (stages (roadmap s))) \<le> i"
    then have "Session_setStage s i = (False, s)"
      by (auto simp: Session_setStage_def)
    then show "Session_setStage s i = (False, s) \<and> setStage h (ByIndex i) = (False, h)"
      using cur by (simp add: store_same)
  qed
  have atLast: "currentStageIndex s = int (length (stages (roadmap s))) - 1 \<longrightarrow>
      Session_advanceStage s = (False, s) \<and> advanceStage h = (False, h)"
    using cur by (simp add: Session_advanceStage_def advanceStage_def store_same)
  have below: "currentStageIndex s < int (length (stages (roadmap s))) - 1 \<longrightarrow>
      Session_advanceStage s = (True, s\<lparr>currentStageIndex := currentStageIndex s + 1\<rparr>)
      \<and> fst (advanceStage h) = True
      \<and> getCurrentSession (snd (advanceStage h))
          = Some (s\<lparr>currentStageIndex := currentStageIndex s + 1\<rparr>)"
    using cur by (simp add: Session_advanceStage_def advanceStage_def store_get)
  have iff: "fst (Session_advanceStage s)
      = (currentStageIndex s + 1 < int (length (stages (roadmap s))))"
    by (auto simp: Session_advanceStage_def)
  from byName byIndex atLast below iff show ?thesis by blast
qed

theorem failed_navigation_noop_witness:
  "setStage example_gate (ByName ''DoesNotExist'') = (False, example_gate)
   \<and> setStage example_gate (ByIndex 6) = (False, example_gate)
   \<and> fst (advanceStage example_gate) = True
   \<and> getCurrentSession (snd (advanceStage example_gate))
       = Some ((Session_new ''session_1'' createGameRoadmap)\<lparr>currentStageIndex := 1\<rparr>)
   \<and> advanceStage last_stage_gate = (False, last_stage_gate)"
proof -
  have unknown:
    "\<forall>st \<in> set (stages (roadmap (Session_new ''session_1'' createGameRoadmap))).
       name st \<noteq> ''DoesNotExist''"
    by (simp add: Session_new_def createGameRoadmap_def)
  have len: "int (length (stages (roadmap (Session_new ''session_1'' createGameRoadmap)))) = 6"
    by (simp add: Session_new_def createGameRoadmap_def)
  have idx0: "currentStageIndex (Session_new ''session_1'' createGameRoadmap) = 0"
    by (simp add: Session_new_def)
  have len5: "int (length (stages (roadmap
      ((Session_new ''session_1'' createGameRoadmap)\<lparr>currentStageIndex := 5\<rparr>)))) = 6"
    by (simp add: Session_new_def createGameRoadmap_def)
  show ?thesis
    using failed_navigation_noop
        [OF example_gate_session, of "''DoesNotExist''" 6]
      failed_navigation_noop
        [OF last_stage_gate_session, of "''DoesNotExist''" 6]
      unknown len idx0 len5
    by simp
qed

section \<open>Stage-change notifications\<close>

text \<open>
  Neither \<open>Handover.setStage\<close>, \<open>Handover.advanceStage\<close> nor the manager methods that wrap
  them call \<open>emit\<close>: whatever the arguments, the scene's emitted events are the same after
  the call as before.
\<close>

lemma stage_change_emits_nothing:
  "emitted (snd (snd (HandoverManager_setStage nm (h, rt)))) = emitted rt
   \<and> emitted (snd (snd (HandoverManager_advanceStage (h, rt)))) = emitted rt"
  by (simp add: HandoverManager_setStage_def HandoverManager_advanceStage_def)

text \<open>
  Claim C5 at a concrete input.  A session on the game roadmap is at \<open>MainMenu\<close>.
  \<open>setStage('GamePreparation')\<close> succeeds and the current stage changes, and
  \<open>advanceStage()\<close> succeeds likewise, but in both cases no \<open>handover-stage-changed\<close> event
  (no event at all) has been emitted on the scene.
\<close>

theorem stage_change_without_notification:
  "map_option name (getCurrentStage example_gate) = Some ''MainMenu''
   \<and> fst (HandoverManager_setStage ''GamePreparation'' (example_gate, Runtime_new)) = True
   \<and> map_option name
         (getCurrentStage
            (fst (snd (HandoverManager_setStage ''GamePreparation''
                         (example_gate, Runtime_new)))))
       = Some ''GamePreparation''
   \<and> emitted (snd (snd (HandoverManager_setStage ''GamePreparation''
                          (example_gate, Runtime_new)))) = []
   \<and> fst (HandoverManager_advanceStage (example_gate, Runtime_new)) = True
   \<and> map_option name
         (getCurrentStage (fst (snd (HandoverManager_advanceStage (example_gate, Runtime_new)))))
       = Some ''GamePreparation''
   \<and> emitted (snd (snd (HandoverManager_advanceStage (example_gate, Runtime_new)))) = []"
proof -
  have set_ok: "fst (setStage example_gate (ByName ''GamePreparation'')) = True"
    by (simp add: setStageByName_def example_gate_session Session_setStageByName_def
        Session_new_def createGameRoadmap_def)
  have adv: "Session_advanceStage (Session_new ''session_1'' createGameRoadmap)
      = (True, (Session_new ''session_1'' createGameRoadmap)\<lparr>currentStageIndex := 1\<rparr>)"
    by (simp add: Session_advanceStage_def Session_new_def createGameRoadmap_def)
  have adv_session: "getCurrentSession (snd (advanceStage example_gate))
      = Some ((Session_new ''session_1'' createGameRoadmap)\<lparr>currentStageIndex := 1\<rparr>)"
    by (simp add: advanceStage_def example_gate_session adv store_get)
  have adv_stage: "map_option name (getCurrentStage (snd (advanceStage example_gate)))
      = Some ''GamePreparation''"
    by (simp add: getCurrentStage_def adv_session Session_getCurrentStage_def
        Session_new_def createGameRoadmap_def js_index_def)
  have adv_ok: "fst (advanceStage example_gate) = True"
    by (simp add: advanceStage_def example_gate_session adv)
  have set_stage: "map_option name
      (getCurrentStage (snd (setStage example_gate (ByName ''GamePreparation''))))
      = Some ''GamePreparation''"
    using aiming_gate_stage by (simp add: aiming_gate_def)
  show ?thesis
    using set_ok set_stage adv_ok adv_stage
    by (simp add: HandoverManager_setStage_def HandoverManager_advanceStage_def
        example_gate_stage Runtime_new_def)
qed

section \<open>Directional input: buffering and reversal suppression\<close>

lemma oppositeDir_neq [simp]: "oppositeDir d \<noteq> d" "d \<noteq> oppositeDir d"
  by (cases d; simp)+

lemma push_bounded_last: "push_bounded buf now \<noteq> [] \<and> last (push_bounded buf now) = now"
proof (cases "length (buf @ [now]) > BUFFER_SIZE")
  case True
  then have "length buf \<ge> 5" by (simp add: BUFFER_SIZE_def)
  then obtain x xs where buf: "buf = x # xs" by (cases buf) auto
  with \<open>length buf \<ge> 5\<close> have "xs \<noteq> []" by auto
  with buf show ?thesis using True by (simp add: push_bounded_def)
next
  case False
  then show ?thesis by (simp add: push_bounded_def)
qed

lemma push_bounded_length:
  "length buf \<le> BUFFER_SIZE \<Longrightarrow> length (push_bounded buf now) \<le> BUFFER_SIZE"
  by (simp add: push_bounded_def BUFFER_SIZE_def)

lemma rapid_pushed:
  "isRapidDirectionChange (sys\<lparr>inputBuffer := (inputBuffer sys)(d := push_bounded (inputBuffer sys d) now)\<rparr>) d
     = (inputBuffer sys (oppositeDir d) \<noteq> [] \<and> \<bar>now - last (inputBuffer sys (oppositeDir d))\<bar> < 50)"
  using push_bounded_last [of "inputBuffer sys d" now]
  by (simp add: isRapidDirectionChange_def)

lemma directional_dropped:
  assumes "direction_key d \<notin> disabledKeys (fst st)"
    and "inputBuffer (fst st) (oppositeDir d) \<noteq> []"
    and "\<bar>now - last (inputBuffer (fst st) (oppositeDir d))\<bar> < 50"
  shows "handleDirectionalInput now d h st
    = ((fst st)\<lparr>inputBuffer := (inputBuffer (fst st))(d := push_bounded (inputBuffer (fst st) d) now)\<rparr>, snd st)"
  using assms by (simp add: handleDirectionalInput_def rapid_pushed)

lemma directional_gated:
  assumes "direction_key d \<notin> disabledKeys (fst st)"
    and "inputBuffer (fst st) (oppositeDir d) = [] \<or> 50 \<le> \<bar>now - last (inputBuffer (fst st) (oppositeDir d))\<bar>"
  shows "handleDirectionalInput now d h st
    = ((fst st)\<lparr>inputBuffer := (inputBuffer (fst st))(d := push_bounded (inputBuffer (fst st) d) now)\<rparr>,
       if isActionAllowed h ''aim'' then emit (''input-aim-'' @ direction_key d) NoPayload (snd st)
       else console_write (not_allowed_warning ''aim'') (snd st))"
  using assms by (auto simp: handleDirectionalInput_def rapid_pushed performAction_def HandoverManager_isActionAllowed_def)

lemma directional_buffers:
  assumes "direction_key d \<notin> disabledKeys (fst st)"
  shows "inputBuffer (fst (handleDirectionalInput now d h st))
      = (inputBuffer (fst st))(d := push_bounded (inputBuffer (fst st) d) now)
    \<and> disabledKeys (fst (handleDirectionalInput now d h st)) = disabledKeys (fst st)"
  using assms by (simp add: handleDirectionalInput_def performAction_def)


text \<open>
  Claim C8.  With both direction keys enabled, whatever the earlier history: after a press
  of one direction at time \<open>t\<close>, a press of the opposite direction at \<open>t + 20\<close> is dropped,
  that is, the runtime is left as it was (no event emitted, no gate warning logged, so the
  gate was not consulted); a further press of that opposite direction at \<open>t + 100\<close> reaches
  the gate, which emits the \<open>input-aim-...\<close> event when \<open>aim\<close> is allowed and logs its warning
  otherwise.
\<close>

theorem reversal_suppressed_then_accepted:
  assumes left_on: "direction_key d \<notin> disabledKeys (fst st)"
    and right_on: "direction_key (oppositeDir d) \<notin> disabledKeys (fst st)"
    and first: "st1 = handleDirectionalInput t d h1 st"
    and second: "st2 = handleDirectionalInput (t + 20) (oppositeDir d) h2 st1"
    and third: "st3 = handleDirectionalInput (t + 100) (oppositeDir d) h3 st2"
  shows "snd st2 = snd st1
    \<and> (isActionAllowed h3 ''aim'' \<longrightarrow>
         emitted (snd st3)
           = emitted (snd st2) @ [(''input-aim-'' @ direction_key (oppositeDir d), NoPayload)]
         \<and> console (snd st3) = console (snd st2))
    \<and> (\<not> isActionAllowed h3 ''aim'' \<longrightarrow>
         emitted (snd st3) = emitted (snd st2)
         \<and> console (snd st3) = console (snd st2) @ [not_allowed_warning ''aim''])"
proof -
  have buf1: "inputBuffer (fst st1)
      = (inputBuffer (fst st))(d := push_bounded (inputBuffer (fst st) d) t)"
    and dis1: "disabledKeys (fst st1) = disabledKeys (fst st)"
    using directional_buffers [OF left_on, of t h1] first by simp_all
  have last1: "inputBuffer (fst st1) d \<noteq> [] \<and> last (inputBuffer (fst st1) d) = t"
    using push_bounded_last [of "inputBuffer (fst st) d" t] by (simp add: buf1)
  have right1: "direction_key (oppositeDir d) \<notin> disabledKeys (fst st1)"
    using right_on dis1 by simp
  have opp: "oppositeDir (oppositeDir d) = d" by (cases d) simp_all
  have drop2: "st2 = ((fst st1)\<lparr>inputBuffer := (inputBuffer (fst st1))
      (oppositeDir d := push_bounded (inputBuffer (fst st1) (oppositeDir d)) (t + 20))\<rparr>, snd st1)"
    unfolding second
    by (rule directional_dropped [OF right1]) (simp_all add: opp last1)
  then have same2: "snd st2 = snd st1" by simp
  have buf2: "inputBuffer (fst st2) d = inputBuffer (fst st1) d"
    and dis2: "disabledKeys (fst st2) = disabledKeys (fst st1)"
    using drop2 by simp_all
  have right2: "direction_key (oppositeDir d) \<notin> disabledKeys (fst st2)"
    using right1 dis2 by simp
  have far: "inputBuffer (fst st2) (oppositeDir (oppositeDir d)) = []
      \<or> 50 \<le> \<bar>t + 100 - last (inputBuffer (fst st2) (oppositeDir (oppositeDir d)))\<bar>"
    by (simp add: opp buf2 last1)
  have "snd st3 = (if isActionAllowed h3 ''aim''
      then emit (''input-aim-'' @ direction_key (oppositeDir d)) NoPayload (snd st2)
      else console_write (not_allowed_warning ''aim'') (snd st2))"
    unfolding third by (simp add: directional_gated [OF right2 far])
  with same2 show ?thesis by (simp add: emit_def console_write_def)
qed

text \<open>The first example history: the press was accepted and buffered.\<close>

lemma after_left_value:
  "after_left = (InputSystem_new\<lparr>inputBuffer := (\<lambda>d. [])(DLeft := [1000])\<rparr>,
      Runtime_new\<lparr>emitted := [(''input-aim-left'', NoPayload)]\<rparr>)"
proof -
  have "handleDirectionalInput 1000 DLeft aiming_gate input_start
      = ((fst input_start)\<lparr>inputBuffer := (inputBuffer (fst input_start))
            (DLeft := push_bounded (inputBuffer (fst input_start) DLeft) 1000)\<rparr>,
         if isActionAllowed aiming_gate ''aim''
         then emit (''input-aim-'' @ direction_key DLeft) NoPayload (snd input_start)
         else console_write (not_allowed_warning ''aim'') (snd input_start))"
    by (rule directional_gated) (simp_all add: input_start_def InputSystem_new_def)
  then show ?thesis
    by (simp add: after_left_def aim_allowed_when_aiming input_start_def InputSystem_new_def
        Runtime_new_def emit_def push_bounded_def BUFFER_SIZE_def)
qed

theorem reversal_suppressed_then_accepted_witness:
  "emitted (snd after_left) = [(''input-aim-left'', NoPayload)]
   \<and> snd after_right_20 = snd after_left
   \<and> emitted (snd after_right_100)
       = [(''input-aim-left'', NoPayload), (''input-aim-right'', NoPayload)]
   \<and> console (snd after_right_100) = []"
proof -
  have on: "direction_key DLeft \<notin> disabledKeys (fst input_start)"
    "direction_key (oppositeDir DLeft) \<notin> disabledKeys (fst input_start)"
    by (simp_all add: input_start_def InputSystem_new_def)
  show ?thesis
    using reversal_suppressed_then_accepted
      [OF on, of after_left 1000 aiming_gate after_right_20 aiming_gate after_right_100
         aiming_gate]
      aim_allowed_when_aiming
    by (simp add: after_left_def [symmetric] after_right_20_def after_right_100_def
        after_left_value Runtime_new_def)
qed


lemma push_bounded_append:
  "push_bounded buf now = (if length buf < 5 then buf @ [now] else tl buf @ [now])"
proof (cases "length buf < 5")
  case True
  then show ?thesis by (simp add: push_bounded_def BUFFER_SIZE_def)
next
  case False
  then have "buf \<noteq> []" by auto
  then have "tl (buf @ [now]) = tl buf @ [now]" by simp
  with False show ?thesis by (simp add: push_bounded_def BUFFER_SIZE_def)
qed

text \<open>
  Claim C10.  With both direction keys enabled, a press of direction \<open>d\<close> at \<open>t1\<close> appends
  \<open>t1\<close> to the buffer of \<open>d\<close>: the earlier timestamps stay in their order, and only when the
  buffer already held 5 is the oldest one removed, so that the buffer never holds more
  than 5.  The other buffer is not touched.  This happens before the reversal check is made
  and also when that check then drops the press (the runtime is then unchanged).  Hence,
  dropped or not, it makes a press of the opposite direction at \<open>t2\<close> within 50 ms of \<open>t1\<close>
  be dropped, and that dropped press is appended to its own buffer in the same way.
\<close>

theorem dropped_press_is_buffered:
  assumes on: "direction_key d \<notin> disabledKeys (fst st)"
    and opp_on: "direction_key (oppositeDir d) \<notin> disabledKeys (fst st)"
    and first: "st1 = handleDirectionalInput t1 d h1 st"
    and second: "st2 = handleDirectionalInput t2 (oppositeDir d) h2 st1"
    and near: "\<bar>t2 - t1\<bar> < 50"
  shows "inputBuffer (fst st1) d
      = (if length (inputBuffer (fst st) d) < 5 then inputBuffer (fst st) d @ [t1]
         else tl (inputBuffer (fst st) d) @ [t1])
    \<and> inputBuffer (fst st1) (oppositeDir d) = inputBuffer (fst st) (oppositeDir d)
    \<and> inputBuffer (fst st1) d = push_bounded (inputBuffer (fst st) d) t1
    \<and> last (inputBuffer (fst st1) d) = t1
    \<and> (length (inputBuffer (fst st) d) \<le> 5 \<longrightarrow> length (inputBuffer (fst st1) d) \<le> 5)
    \<and> (isRapidDirectionChange
          ((fst st)\<lparr>inputBuffer :=
             (inputBuffer (fst st))(d := push_bounded (inputBuffer (fst st) d) t1)\<rparr>) d \<longrightarrow>
         snd st1 = snd st)
    \<and> snd st2 = snd st1
    \<and> inputBuffer (fst st2) (oppositeDir d)
      = (if length (inputBuffer (fst st) (oppositeDir d)) < 5
         then inputBuffer (fst st) (oppositeDir d) @ [t2]
         else tl (inputBuffer (fst st) (oppositeDir d)) @ [t2])
    \<and> inputBuffer (fst st2) d = inputBuffer (fst st1) d"
proof -
  have buf1: "inputBuffer (fst st1)
      = (inputBuffer (fst st))(d := push_bounded (inputBuffer (fst st) d) t1)"
    and dis1: "disabledKeys (fst st1) = disabledKeys (fst st)"
    using directional_buffers [OF on, of t1 h1] first by simp_all
  have spelled: "inputBuffer (fst st1) d
      = (if length (inputBuffer (fst st) d) < 5 then inputBuffer (fst st) d @ [t1]
         else tl (inputBuffer (fst st) d) @ [t1])"
    by (simp add: buf1 push_bounded_append)
  have other1: "inputBuffer (fst st1) (oppositeDir d) = inputBuffer (fst st) (oppositeDir d)"
    by (simp add: buf1)
  have pushed: "inputBuffer (fst st1) d = push_bounded (inputBuffer (fst st) d) t1"
    by (simp add: buf1)
  have last1: "inputBuffer (fst st1) d \<noteq> [] \<and> last (inputBuffer (fst st1) d) = t1"
    using push_bounded_last [of "inputBuffer (fst st) d" t1] by (simp add: buf1)
  have bounded: "length (inputBuffer (fst st) d) \<le> 5 \<longrightarrow>
      length (inputBuffer (fst st1) d) \<le> 5"
    using push_bounded_length [of "inputBuffer (fst st) d" t1]
    by (simp add: buf1 BUFFER_SIZE_def)
  have dropped: "isRapidDirectionChange
      ((fst st)\<lparr>inputBuffer :=
         (inputBuffer (fst st))(d := push_bounded (inputBuffer (fst st) d) t1)\<rparr>) d \<longrightarrow>
      snd st1 = snd st"
    using on by (simp add: first handleDirectionalInput_def)
  have opp: "oppositeDir (oppositeDir d) = d" by (cases d) simp_all
  have opp1: "direction_key (oppositeDir d) \<notin> disabledKeys (fst st1)"
    using opp_on dis1 by simp
  have st2: "st2 = ((fst st1)\<lparr>inputBuffer := (inputBuffer (fst st1))
      (oppositeDir d := push_bounded (inputBuffer (fst st1) (oppositeDir d)) t2)\<rparr>, snd st1)"
    unfolding second
    by (rule directional_dropped [OF opp1]) (simp_all add: opp last1 near)
  then have same: "snd st2 = snd st1" by simp
  have spelled2: "inputBuffer (fst st2) (oppositeDir d)
      = (if length (inputBuffer (fst st) (oppositeDir d)) < 5
         then inputBuffer (fst st) (oppositeDir d) @ [t2]
         else tl (inputBuffer (fst st) (oppositeDir d)) @ [t2])"
    by (simp add: st2 other1 push_bounded_append)
  have other2: "inputBuffer (fst st2) d = inputBuffer (fst st1) d"
    by (simp add: st2)
  from spelled other1 pushed last1 bounded dropped same spelled2 other2
  show ?thesis by blast
qed

theorem dropped_press_is_buffered_witness:
  "snd after_right_20 = snd after_left
   \<and> inputBuffer (fst after_left) DLeft = [1000]
   \<and> inputBuffer (fst after_right_20) DRight = [1020]
   \<and> inputBuffer (fst after_right_20) DLeft = [1000]
   \<and> snd after_left_60 = snd after_right_20
   \<and> inputBuffer (fst after_left_60) DLeft = [1000, 1060]
   \<and> inputBuffer (fst after_left_60) DRight = [1020]
   \<and> emitted (snd after_left_60) = [(''input-aim-left'', NoPayload)]
   \<and> inputBuffer (fst full_left) DLeft = [100, 200, 300, 400, 500]
   \<and> inputBuffer (fst full_left_pressed) DLeft = [200, 300, 400, 500, 1000]"
proof -
  have on: "direction_key DRight \<notin> disabledKeys (fst after_left)"
    "direction_key (oppositeDir DRight) \<notin> disabledKeys (fst after_left)"
    by (simp_all add: after_left_value InputSystem_new_def)
  have rapid: "isRapidDirectionChange
      ((fst after_left)\<lparr>inputBuffer :=
         (inputBuffer (fst after_left))
           (DRight := push_bounded (inputBuffer (fst after_left) DRight) 1020)\<rparr>) DRight"
    by (simp add: after_left_value InputSystem_new_def isRapidDirectionChange_def
        push_bounded_def BUFFER_SIZE_def)
  have second: "after_left_60
      = handleDirectionalInput 1060 (oppositeDir DRight) aiming_gate after_right_20"
    by (simp add: after_left_60_def)
  have near: "\<bar>1060 - 1020\<bar> < (50 :: int)"
    by simp
  have history: "snd after_right_20 = snd after_left
      \<and> inputBuffer (fst after_left) DLeft = [1000]
      \<and> inputBuffer (fst after_right_20) DRight = [1020]
      \<and> inputBuffer (fst after_right_20) DLeft = [1000]
      \<and> snd after_left_60 = snd after_right_20
      \<and> inputBuffer (fst after_left_60) DLeft = [1000, 1060]
      \<and> inputBuffer (fst after_left_60) DRight = [1020]
      \<and> emitted (snd after_left_60) = [(''input-aim-left'', NoPayload)]"
    using dropped_press_is_buffered [OF on after_right_20_def second near] rapid
    by (simp add: after_left_value InputSystem_new_def Runtime_new_def)
  have full_on: "direction_key DLeft \<notin> disabledKeys (fst full_left)"
    "direction_key (oppositeDir DLeft) \<notin> disabledKeys (fst full_left)"
    by (simp_all add: full_left_def InputSystem_new_def)
  have full_second: "handleDirectionalInput 1020 (oppositeDir DLeft) aiming_gate full_left_pressed
      = handleDirectionalInput 1020 (oppositeDir DLeft) aiming_gate full_left_pressed"
    by (rule refl)
  have full_near: "\<bar>1020 - 1000\<bar> < (50 :: int)"
    by simp
  have full: "inputBuffer (fst full_left) DLeft = [100, 200, 300, 400, 500]
      \<and> inputBuffer (fst full_left_pressed) DLeft = [200, 300, 400, 500, 1000]"
    using dropped_press_is_buffered [OF full_on full_left_pressed_def full_second full_near]
    by (simp add: full_left_def InputSystem_new_def)
  from history full show ?thesis by blast
qed

section \<open>Charging\<close>

text \<open>
  Below the maximum charge duration a tick of a charging \<open>ShotSystem\<close> returns normally,
  emits nothing and sets the power to \<open>min(MIN_POWER + elapsed * POWER_RATE, MAX_POWER)\<close>.
  That value lies between 0.1 and 1.0, grows with the elapsed time, and is 1.0 from
  1800 ms on.
\<close>

lemma charge_tick_below_max:
  assumes "isCharging (fst st)" and "now - chargeStartTime (fst st) < MAX_CHARGE_DURATION"
  shows "ShotSystem_update now st
    = (Returned,
       ((fst st)\<lparr>currentCharge :=
          Some (min (MIN_POWER + real_of_int (now - chargeStartTime (fst st)) * POWER_RATE)
                    MAX_POWER)\<rparr>,
        snd st))"
  using assms by (simp add: ShotSystem_update_def)

lemma charge_formula_bounds:
  assumes "0 \<le> e" and "e \<le> e'"
  shows "MIN_POWER \<le> min (MIN_POWER + real_of_int e * POWER_RATE) MAX_POWER"
    and "min (MIN_POWER + real_of_int e * POWER_RATE) MAX_POWER \<le> MAX_POWER"
    and "min (MIN_POWER + real_of_int e * POWER_RATE) MAX_POWER
         \<le> min (MIN_POWER + real_of_int e' * POWER_RATE) MAX_POWER"
    and "1800 \<le> e \<Longrightarrow> min (MIN_POWER + real_of_int e * POWER_RATE) MAX_POWER = 1"
  using assms by (simp_all add: MIN_POWER_def MAX_POWER_def POWER_RATE_def min_def)

text \<open>
  At or past the maximum charge duration a tick of a charging \<open>ShotSystem\<close> ends with a
  \<open>TypeError\<close>: the power has become \<open>undefined\<close>, nothing was emitted, and the system is
  still charging, so the next tick does the same.
\<close>

lemma charge_tick_at_max:
  assumes "isCharging (fst st)" and "MAX_CHARGE_DURATION \<le> now - chargeStartTime (fst st)"
  shows "ShotSystem_update now st
    = (Threw (TypeError ''this.fire is not a function''),
       ((fst st)\<lparr>currentCharge := None\<rparr>, snd st))"
  using assms by (simp add: ShotSystem_update_def handleMaxCharge_def)

lemma charging_since_0_value:
  "charging_since_0
     = (\<lparr>isCharging = True, chargeStartTime = 0, currentCharge = Some (1 / 10),
         inCooldown = False\<rparr>, Runtime_new)"
  by (simp add: charging_since_0_def startCharging_def canStartShot_def ShotSystem_new_def
      MIN_POWER_def)

text \<open>
  Claim C2 at a concrete input.  Charging started at clock reading 0 and the next frame
  comes at 2000.  \<open>update\<close> does not fire: it throws, no \<open>shot-fired\<close> event (no event at all)
  has been emitted, the power is \<open>undefined\<close> instead of 1.0, and the system is still
  charging, so that the frame after it (at 2016) throws again.  The listener of
  \<open>input-charge-max\<close>, \<open>handleMaxCharge\<close>, ends the same way.
\<close>

theorem forced_release_throws:
  "isCharging (fst charging_since_0)
   \<and> fst (ShotSystem_update 2000 charging_since_0)
       = Threw (TypeError ''this.fire is not a function'')
   \<and> emitted (snd (snd (ShotSystem_update 2000 charging_since_0))) = []
   \<and> currentCharge (fst (snd (ShotSystem_update 2000 charging_since_0))) = None
   \<and> isCharging (fst (snd (ShotSystem_update 2000 charging_since_0)))
   \<and> fst (ShotSystem_update 2016 (snd (ShotSystem_update 2000 charging_since_0)))
       = Threw (TypeError ''this.fire is not a function'')
   \<and> emitted (snd (snd (ShotSystem_update 2016 (snd (ShotSystem_update 2000 charging_since_0)))))
       = []
   \<and> fst (handleMaxCharge charging_since_0)
       = Threw (TypeError ''this.fire is not a function'')
   \<and> emitted (snd (snd (handleMaxCharge charging_since_0))) = []"
  by (simp add: charging_since_0_value ShotSystem_update_def handleMaxCharge_def
      MAX_CHARGE_DURATION_def Runtime_new_def)

text \<open>
  Claim C3 at a concrete input.  Charging started at clock reading 0; the power is sampled
  after the frames at 0, 500, 1000, 1500 and 2000 ms.  The first four samples are 0.1,
  0.35, 0.6 and 0.85; the frame at 2000 ms throws and leaves the power \<open>undefined\<close>, which
  is neither \<open>min(MIN_POWER + 2000 * POWER_RATE, MAX_POWER) = 1.0\<close> nor a value between 0.1
  and 1.0.
\<close>

theorem charge_samples_end_undefined:
  "charge_samples [0, 500, 1000, 1500, 2000] charging_since_0
     = [(Returned, Some (1 / 10)), (Returned, Some (35 / 100)), (Returned, Some (6 / 10)),
        (Returned, Some (85 / 100)),
        (Threw (TypeError ''this.fire is not a function''), None)]
   \<and> min (MIN_POWER + real_of_int 2000 * POWER_RATE) MAX_POWER = 1"
  by (simp add: charging_since_0_value ShotSystem_update_def handleMaxCharge_def
      MAX_CHARGE_DURATION_def MIN_POWER_def MAX_POWER_def POWER_RATE_def)

section \<open>Aiming: the angle range\<close>

lemma smoothing_step_between:
  fixes c t :: real
  shows "min c t \<le> c + (t - c) * (1 / 10) \<and> c + (t - c) * (1 / 10) \<le> max c t"
proof -
  define d where "d = (t - c) * (1 / 10)"
  then have "t - c = 10 * d" by simp
  then show ?thesis unfolding d_def [symmetric] by (auto simp: min_def max_def)
qed

lemma smoothed_between:
  "min c t \<le> smoothed c t \<and> smoothed c t \<le> max c t"
  using smoothing_step_between [of c t]
  by (simp add: smoothed_def ANGLE_SMOOTHING_def)

lemma update_in_range:
  "angles_in_range (fst st) \<Longrightarrow> angles_in_range (fst (AimSystem_update st))"
  using smoothed_between [of "currentAngle (recentre (fst st))" "targetAngle (recentre (fst st))"]
  by (auto simp: AimSystem_update_def angles_in_range_def recentre_def MIN_ANGLE_def MAX_ANGLE_def)

lemma setAimDirection_in_range:
  "angles_in_range (fst st) \<Longrightarrow> angles_in_range (fst (setAimDirection now d h st))"
  by (cases d) (auto simp: setAimDirection_def performAction_def aim_callback_def angles_in_range_def
      console_write_def MIN_ANGLE_def MAX_ANGLE_def ANGLE_STEP_def)

lemma aim_call_in_range:
  assumes "angles_in_range (fst st)"
  shows "angles_in_range (fst (aim_call c st))"
proof (cases c)
  case (Nudge now d h)
  then show ?thesis using assms by (simp add: setAimDirection_in_range)
next
  case ShotFiredHeard
  then show ?thesis using assms by (simp add: resetAim_def angles_in_range_def)
next
  case AngleLimitsSet
  then show ?thesis
    by (simp add: setAngleLimits_def angles_in_range_def Clamp_def MIN_ANGLE_def MAX_ANGLE_def)
next
  case Tick
  then show ?thesis using assms by (simp add: update_in_range)
qed

lemma aim_calls_in_range:
  "angles_in_range (fst st) \<Longrightarrow> angles_in_range (fst (aim_calls cs st))"
proof (induction cs arbitrary: st)
  case Nil
  then show ?case by simp
next
  case (Cons c cs)
  from Cons.prems have "angles_in_range (fst (aim_call c st))" by (rule aim_call_in_range)
  then show ?case using Cons.IH by simp
qed

text \<open>
  Claim C6.  Start with both angles between -80 and 80 degrees.  After any sequence of
  calls of the \<open>input-aim-left\<close> and \<open>input-aim-right\<close> listeners (at any clock readings,
  whatever the gate says each time), \<open>shot-fired\<close> resets, \<open>setAngleLimits\<close> calls and
  \<open>update\<close> ticks, both angles are still between -80 and 80 degrees.
\<close>

theorem angles_stay_in_range:
  assumes "-80 \<le> currentAngle (fst st)" and "currentAngle (fst st) \<le> 80"
    and "-80 \<le> targetAngle (fst st)" and "targetAngle (fst st) \<le> 80"
  shows "-80 \<le> currentAngle (fst (aim_calls cs st))
    \<and> currentAngle (fst (aim_calls cs st)) \<le> 80
    \<and> -80 \<le> targetAngle (fst (aim_calls cs st))
    \<and> targetAngle (fst (aim_calls cs st)) \<le> 80"
proof -
  have "angles_in_range (fst st)"
    using assms by (simp add: angles_in_range_def MIN_ANGLE_def MAX_ANGLE_def)
  then have "angles_in_range (fst (aim_calls cs st))"
    by (rule aim_calls_in_range)
  then show ?thesis
    by (simp add: angles_in_range_def MIN_ANGLE_def MAX_ANGLE_def)
qed

theorem angles_stay_in_range_witness:
  "targetAngle (fst (aim_call (Nudge 1000 DRight aiming_gate) near_right_limit)) = 80
   \<and> -80 \<le> currentAngle (fst (aim_calls nudges_right near_right_limit))
   \<and> currentAngle (fst (aim_calls nudges_right near_right_limit)) \<le> 80
   \<and> -80 \<le> targetAngle (fst (aim_calls nudges_right near_right_limit))
   \<and> targetAngle (fst (aim_calls nudges_right near_right_limit)) \<le> 80"
proof -
  have start: "-80 \<le> currentAngle (fst near_right_limit)"
    "currentAngle (fst near_right_limit) \<le> 80"
    "-80 \<le> targetAngle (fst near_right_limit)"
    "targetAngle (fst near_right_limit) \<le> 80"
    by (simp_all add: near_right_limit_def AimSystem_new_def)
  have first: "targetAngle (fst (aim_call (Nudge 1000 DRight aiming_gate) near_right_limit))
      = 80"
    by (simp add: near_right_limit_def setAimDirection_def AimSystem_new_def
        DIRECTION_CHANGE_THRESHOLD_MS_def performAction_def HandoverManager_isActionAllowed_def
        aim_allowed_when_aiming aim_callback_def ANGLE_STEP_def MAX_ANGLE_def)
  show ?thesis
    using first angles_stay_in_range [OF start, of nudges_right] by simp
qed

section \<open>Aiming: returning to the centre\<close>

lemma nudged_left_value:
  "nudged_left
     = (\<lparr>currentAngle = 0, targetAngle = -2, isAiming = True, inputDirection = Some DLeft,
         lastDirectionChange = 1000\<rparr>, Runtime_new)"
  by (simp add: nudged_left_def setAimDirection_def AimSystem_new_def
      DIRECTION_CHANGE_THRESHOLD_MS_def performAction_def HandoverManager_isActionAllowed_def
      aim_allowed_when_aiming aim_callback_def ANGLE_STEP_def MIN_ANGLE_def)

lemma nudged_left_settles: "fst (ticks 29 nudged_left)
     = \<lparr>currentAngle = -2, targetAngle = -2, isAiming = True, inputDirection = Some DLeft,
         lastDirectionChange = 1000\<rparr>"
  by (simp add: nudged_left_value eval_nat_numeral AimSystem_update_def recentre_def
      smoothed_def ANGLE_SMOOTHING_def emit_def Runtime_new_def)

lemma decay_bounds: "0 \<le> decay \<and> decay < 1"
  by (simp add: decay_def ANGLE_SMOOTHING_def)

lemma smoothed_to_zero:
  "smoothed c 0 = (if \<bar>c * decay\<bar> < 1 / 10 then 0 else c * decay)"
proof -
  have e: "c + (0 - c) * ANGLE_SMOOTHING = c * decay"
    by (simp add: decay_def algebra_simps)
  show ?thesis
    unfolding smoothed_def e by simp
qed

lemma update_idle:
  assumes "\<not> isAiming (fst st)" and "inputDirection (fst st) = None"
  shows "\<not> isAiming (fst (AimSystem_update st))"
    and "inputDirection (fst (AimSystem_update st)) = None"
    and "targetAngle (fst (AimSystem_update st)) = 0"
    and "currentAngle (fst (AimSystem_update st)) = 0
         \<or> (currentAngle (fst (AimSystem_update st)) = currentAngle (fst st) * decay
            \<and> \<not> \<bar>currentAngle (fst (AimSystem_update st))\<bar> < 1 / 10)"
  using assms by (auto simp: AimSystem_update_def recentre_def smoothed_to_zero)

lemma ticks_end: "ticks (Suc n) st = AimSystem_update (ticks n st)"
  by (induction n arbitrary: st) simp_all

lemma ticks_idle:
  assumes "\<not> isAiming (fst st)" and "inputDirection (fst st) = None"
  shows "\<not> isAiming (fst (ticks n st)) \<and> inputDirection (fst (ticks n st)) = None"
proof (induction n)
  case 0
  show ?case using assms by simp
next
  case (Suc n)
  then show ?case unfolding ticks_end by (simp add: update_idle)
qed

lemma ticks_geometric:
  assumes "\<not> isAiming (fst st)" and "inputDirection (fst st) = None"
  shows "currentAngle (fst (ticks n st)) = 0
    \<or> currentAngle (fst (ticks n st)) = currentAngle (fst st) * decay ^ n"
proof (induction n)
  case 0
  show ?case by simp
next
  case (Suc n)
  have idle: "\<not> isAiming (fst (ticks n st))" "inputDirection (fst (ticks n st)) = None"
    using ticks_idle [OF assms, of n] by simp_all
  show ?case
    unfolding ticks_end using Suc update_idle(4) [OF idle] by auto
qed

lemma ticks_snapped:
  assumes "\<not> isAiming (fst st)" and "inputDirection (fst st) = None"
  shows "currentAngle (fst (ticks (Suc n) st)) = 0
    \<or> \<not> \<bar>currentAngle (fst (ticks (Suc n) st))\<bar> < 1 / 10"
proof -
  have idle: "\<not> isAiming (fst (ticks n st))" "inputDirection (fst (ticks n st)) = None"
    using ticks_idle [OF assms, of n] by simp_all
  show ?thesis
    unfolding ticks_end using update_idle(4) [OF idle] by blast
qed

lemma ticks_target:
  assumes "\<not> isAiming (fst st)" and "inputDirection (fst st) = None"
  shows "targetAngle (fst (ticks (Suc n) st)) = 0"
proof -
  have idle: "\<not> isAiming (fst (ticks n st))" "inputDirection (fst (ticks n st)) = None"
    using ticks_idle [OF assms, of n] by simp_all
  show ?thesis
    unfolding ticks_end using update_idle(3) [OF idle] by simp
qed

lemma geometric_small:
  fixes c r eps :: real
  assumes "0 \<le> r" and "r < 1" and "0 < eps"
  shows "\<exists>N. \<forall>n \<ge> N. \<bar>c * r ^ n\<bar> < eps"
proof -
  have "0 < eps / (\<bar>c\<bar> + 1)" using assms by simp
  then obtain N where N: "r ^ N < eps / (\<bar>c\<bar> + 1)"
    using real_arch_pow_inv [of "eps / (\<bar>c\<bar> + 1)" r] assms by auto
  have "\<forall>n \<ge> N. \<bar>c * r ^ n\<bar> < eps"
  proof (intro allI impI)
    fix n assume "N \<le> n"
    then have "r ^ n \<le> r ^ N"
      using assms by (simp add: power_decreasing)
    with N have "r ^ n < eps / (\<bar>c\<bar> + 1)" by linarith
    then have "r ^ n * (\<bar>c\<bar> + 1) < eps"
      by (simp add: pos_less_divide_eq)
    moreover have "0 \<le> r ^ n" using assms by simp
    then have "\<bar>c\<bar> * r ^ n \<le> r ^ n * (\<bar>c\<bar> + 1)"
      by (simp add: algebra_simps)
    moreover have "\<bar>c * r ^ n\<bar> = \<bar>c\<bar> * r ^ n"
      using \<open>0 \<le> r ^ n\<close> by (simp add: abs_mult)
    ultimately show "\<bar>c * r ^ n\<bar> < eps" by linarith
  qed
  then show ?thesis by blast
qed

lemma update_at_rest:
  assumes "currentAngle (fst st) = targetAngle (fst st)" and "isAiming (fst st)"
  shows "AimSystem_update st = st"
  using assms by (simp add: AimSystem_update_def recentre_def)

lemma ticks_at_rest: "AimSystem_update st = st \<Longrightarrow> ticks n st = st"
  by (induction n) simp_all

text \<open>
  Claim C7, as amended.  Let the aim system be idle: \<open>isAiming\<close> is false and
  \<open>inputDirection\<close> is \<open>null\<close>, as it is at the start and after \<open>resetAim\<close> has run on
  \<open>shot-fired\<close>.  Then after every tick the target angle is 0, every tick multiplies the
  current angle by \<open>1 - ANGLE_SMOOTHING\<close> or, when that product is closer than 0.1 degrees
  to 0, sets it to 0, and from some tick on the current angle is 0.
\<close>

theorem idle_aim_recentres:
  assumes "\<not> isAiming (fst st)" and "inputDirection (fst st) = None"
  shows "(\<forall>n. targetAngle (fst (ticks (Suc n) st)) = 0)
    \<and> (\<forall>n. currentAngle (fst (ticks (Suc n) st))
            = (if \<bar>currentAngle (fst (ticks n st)) * decay\<bar> < 1 / 10 then 0
               else currentAngle (fst (ticks n st)) * decay))
    \<and> (\<exists>N. \<forall>n \<ge> N. currentAngle (fst (ticks n st)) = 0)"
proof -
  have target: "\<forall>n. targetAngle (fst (ticks (Suc n) st)) = 0"
    using ticks_target [OF assms] by blast
  have step: "\<forall>n. currentAngle (fst (ticks (Suc n) st))
      = (if \<bar>currentAngle (fst (ticks n st)) * decay\<bar> < 1 / 10 then 0
         else currentAngle (fst (ticks n st)) * decay)"
  proof
    fix n
    have idle: "\<not> isAiming (fst (ticks n st))" "inputDirection (fst (ticks n st)) = None"
      using ticks_idle [OF assms, of n] by simp_all
    show "currentAngle (fst (ticks (Suc n) st))
      = (if \<bar>currentAngle (fst (ticks n st)) * decay\<bar> < 1 / 10 then 0
         else currentAngle (fst (ticks n st)) * decay)"
      unfolding ticks_end using idle
      by (auto simp: AimSystem_update_def recentre_def smoothed_to_zero)
  qed
  obtain N where N: "\<forall>n \<ge> N. \<bar>currentAngle (fst st) * decay ^ n\<bar> < 1 / 10"
    using geometric_small [of decay "1 / 10" "currentAngle (fst st)"] decay_bounds by auto
  have "\<forall>n \<ge> Suc N. currentAngle (fst (ticks n st)) = 0"
  proof (intro allI impI)
    fix n assume "Suc N \<le> n"
    then obtain m where n: "n = Suc m" and "N \<le> m" by (cases n) auto
    then have "N \<le> n" by simp
    with N have small: "\<bar>currentAngle (fst st) * decay ^ n\<bar> < 1 / 10" by blast
    show "currentAngle (fst (ticks n st)) = 0"
    proof (rule ccontr)
      assume nz: "currentAngle (fst (ticks n st)) \<noteq> 0"
      then have "currentAngle (fst (ticks n st)) = currentAngle (fst st) * decay ^ n"
        using ticks_geometric [OF assms, of n] by blast
      with small have "\<bar>currentAngle (fst (ticks n st))\<bar> < 1 / 10" by (simp only:)
      moreover have "\<not> \<bar>currentAngle (fst (ticks n st))\<bar> < 1 / 10"
        using ticks_snapped [OF assms, of m] nz unfolding n by blast
      ultimately show False by blast
    qed
  qed
  then have "\<exists>N. \<forall>n \<ge> N. currentAngle (fst (ticks n st)) = 0" by blast
  with target step show ?thesis by blast
qed

theorem idle_aim_recentres_witness:
  "\<not> isAiming (fst idle_at_5)
   \<and> inputDirection (fst idle_at_5) = None
   \<and> currentAngle (fst idle_at_5) = 5
   \<and> targetAngle (fst (ticks (Suc 0) idle_at_5)) = 0
   \<and> (\<exists>N. currentAngle (fst (ticks N idle_at_5)) = 0)"
proof -
  have idle: "\<not> isAiming (fst idle_at_5)" "inputDirection (fst idle_at_5) = None"
    by (simp_all add: idle_at_5_def AimSystem_new_def)
  have five: "currentAngle (fst idle_at_5) = 5"
    by (simp add: idle_at_5_def)
  from idle_aim_recentres [OF idle]
  have target: "targetAngle (fst (ticks (Suc 0) idle_at_5)) = 0"
    and "\<exists>N. \<forall>n \<ge> N. currentAngle (fst (ticks n idle_at_5)) = 0"
    by blast+
  then have "\<exists>N. currentAngle (fst (ticks N idle_at_5)) = 0" by blast
  with idle five target show ?thesis by blast
qed

text \<open>
  Claim C7 as stated fails.  \<open>keydown-LEFT\<close> is pressed once while aiming is allowed and the
  key is released; \<open>InputSystem\<close> registers no listener for the release and \<open>AimSystem\<close>
  hears nothing.  29 frames later both angles are -2 degrees, \<open>inputDirection\<close> is still
  \<open>'left'\<close> and \<open>isAiming\<close> still true, and \<open>update\<close> leaves this state as it is: the target
  does not return to 0 and the current angle stays at -2.
\<close>

theorem released_key_does_not_recentre_counterexample:
  "fst (ticks 29 nudged_left)
     = \<lparr>currentAngle = -2, targetAngle = -2, isAiming = True, inputDirection = Some DLeft,
         lastDirectionChange = 1000\<rparr>
   \<and> AimSystem_update (ticks 29 nudged_left) = ticks 29 nudged_left
   \<and> ticks 1000 (ticks 29 nudged_left) = ticks 29 nudged_left"
proof -
  have rest: "AimSystem_update (ticks 29 nudged_left) = ticks 29 nudged_left"
    by (rule update_at_rest) (simp_all add: nudged_left_settles)
  then have "ticks 1000 (ticks 29 nudged_left) = ticks 29 nudged_left"
    by (rule ticks_at_rest)
  with rest show ?thesis by (simp add: nudged_left_settles)
qed

end
